theory Spec2Isabelle
  imports Complex_Main "HOL-Library.Sublist"
begin

section \<open>JavaScript values used by \<open>src/App.tsx\<close>\<close>

subsection \<open>Numbers\<close>

text \<open>
  A JavaScript Number is NaN, one of the two infinities, or a finite binary64 value.
  Every finite binary64 value is a rational number, so the finite values are carried by
  \<open>rat\<close>; \<open>Fin 0\<close> is the positive zero and \<open>NegZero\<close> the negative one, which compare
  equal and print alike and which \<open>Object.is\<close> tells apart, as equality does here.
\<close>

datatype jsnum = NaN | PosInf | NegInf | NegZero | Fin rat

text \<open>The relational operators \<open><=\<close> and \<open>>=\<close> of the language: false as soon as one side is NaN.\<close>

fun js_le :: "jsnum \<Rightarrow> jsnum \<Rightarrow> bool" where
  "js_le NaN _ = False"
| "js_le _ NaN = False"
| "js_le NegInf _ = True"
| "js_le _ PosInf = True"
| "js_le PosInf _ = False"
| "js_le _ NegInf = False"
| "js_le NegZero NegZero = True"
| "js_le NegZero (Fin b) = (0 \<le> b)"
| "js_le (Fin a) NegZero = (a \<le> 0)"
| "js_le (Fin a) (Fin b) = (a \<le> b)"

fun js_ge :: "jsnum \<Rightarrow> jsnum \<Rightarrow> bool" where
  "js_ge NaN _ = False"
| "js_ge _ NaN = False"
| "js_ge PosInf _ = True"
| "js_ge _ NegInf = True"
| "js_ge NegInf _ = False"
| "js_ge _ PosInf = False"
| "js_ge NegZero NegZero = True"
| "js_ge NegZero (Fin b) = (0 \<ge> b)"
| "js_ge (Fin a) NegZero = (a \<ge> 0)"
| "js_ge (Fin a) (Fin b) = (a \<ge> b)"

fun js_neg :: "jsnum \<Rightarrow> jsnum" where
  "js_neg NaN = NaN"
| "js_neg PosInf = NegInf"
| "js_neg NegInf = PosInf"
| "js_neg NegZero = Fin 0"
| "js_neg (Fin q) = (if q = 0 then NegZero else Fin (- q))"

text \<open>
  Numbers that are neither NaN nor infinite, as \<open>isFinite\<close> tells.
\<close>

fun js_finite :: "jsnum \<Rightarrow> bool" where
  "js_finite NegZero = True"
| "js_finite (Fin q) = True"
| "js_finite _ = False"

subsection \<open>Rounding to binary64\<close>

text \<open>
  The Number value for a real number: the nearest binary64 value, a tie going to the value
  with the even significand, and an infinity when the result would reach \<open>2^1024\<close>.
  For \<open>2^e <= q < 2^(e+1)\<close> the binary64 values around \<open>q\<close> are the multiples of
  \<open>2^(e-52)\<close>; below \<open>2^(-1022)\<close> they are the multiples of \<open>2^(-1074)\<close>.
\<close>

text \<open>
  For \<open>q >= 1\<close>, how often \<open>q\<close> is halved until it is below 2; for \<open>0 < q < 1\<close>, how
  often it is doubled until it reaches 1.
\<close>

function log2_up :: "rat \<Rightarrow> nat" where
  "log2_up q = (if q < 2 then 0 else Suc (log2_up (q / 2)))"
  by pat_completeness auto

termination log2_up
proof (relation "measure (\<lambda>q. nat \<lfloor>q\<rfloor>)")
  fix q :: rat
  assume "\<not> q < 2"
  then have n: "2 \<le> \<lfloor>q\<rfloor>" by simp
  have "q < of_int \<lfloor>q\<rfloor> + 1" by linarith
  then have "q / 2 < (of_int \<lfloor>q\<rfloor> + 1) / 2" by simp
  also have "(of_int \<lfloor>q\<rfloor> + 1) / 2 \<le> (of_int \<lfloor>q\<rfloor> :: rat)" using n by simp
  finally have "\<lfloor>q / 2\<rfloor> < \<lfloor>q\<rfloor>" by (simp add: floor_less_iff)
  then show "(q / 2, q) \<in> measure (\<lambda>q. nat \<lfloor>q\<rfloor>)" using n by simp
qed simp

function log2_down :: "rat \<Rightarrow> nat" where
  "log2_down q = (if q \<le> 0 \<or> 1 \<le> q then 0 else Suc (log2_down (2 * q)))"
  by pat_completeness auto

termination log2_down
proof (relation "measure (\<lambda>q. nat \<lfloor>1 / q\<rfloor>)")
  fix q :: rat
  assume "\<not> (q \<le> 0 \<or> 1 \<le> q)"
  then have q: "0 < q" "q < 1" by simp_all
  then have n: "1 \<le> \<lfloor>1 / q\<rfloor>" by simp
  have "1 / q < of_int \<lfloor>1 / q\<rfloor> + 1" by linarith
  then have "(1 / q) / 2 < (of_int \<lfloor>1 / q\<rfloor> + 1) / 2" by simp
  also have "(of_int \<lfloor>1 / q\<rfloor> + 1) / 2 \<le> (of_int \<lfloor>1 / q\<rfloor> :: rat)" using n by simp
  finally have "(1 / q) / 2 < of_int \<lfloor>1 / q\<rfloor>" .
  moreover have "1 / (2 * q) = (1 / q) / 2" by simp
  ultimately have "\<lfloor>1 / (2 * q)\<rfloor> < \<lfloor>1 / q\<rfloor>" by (simp only: floor_less_iff)
  then show "(2 * q, q) \<in> measure (\<lambda>q. nat \<lfloor>1 / q\<rfloor>)" using n by simp
qed simp

declare log2_up.simps [simp del] log2_down.simps [simp del]

text \<open>For \<open>q > 0\<close>: the \<open>e\<close> with \<open>2^e <= q < 2^(e+1)\<close>.\<close>

definition floor_log2 :: "rat \<Rightarrow> int" where
  "floor_log2 q = (if 1 \<le> q then int (log2_up q) else - int (log2_down q))"

definition pow2 :: "int \<Rightarrow> rat" where
  "pow2 e = (if 0 \<le> e then 2 ^ nat e else 1 / 2 ^ nat (- e))"

definition round_half_even :: "rat \<Rightarrow> int" where
  "round_half_even x =
     (if x - of_int \<lfloor>x\<rfloor> < 1 / 2 then \<lfloor>x\<rfloor>
      else if 1 / 2 < x - of_int \<lfloor>x\<rfloor> then \<lfloor>x\<rfloor> + 1
      else if even \<lfloor>x\<rfloor> then \<lfloor>x\<rfloor>
      else \<lfloor>x\<rfloor> + 1)"

definition round64_pos :: "rat \<Rightarrow> jsnum" where
  "round64_pos q =
     (if 2 ^ 1024 \<le> q then PosInf
      else
        (let e = (if q < 1 / 2 ^ 1022 then - 1022 else floor_log2 q);
             ulp = pow2 (e - 52);
             r = of_int (round_half_even (q / ulp)) * ulp
         in if 2 ^ 1024 \<le> r then PosInf else Fin r))"

definition round64 :: "rat \<Rightarrow> jsnum" where
  "round64 q =
     (if q = 0 then Fin 0
      else if 0 < q then round64_pos q
      else js_neg (round64_pos (- q)))"

text \<open>
  The global \<open>isNaN\<close>, applied to a destructured array element: an element that is
  missing is \<open>undefined\<close> (\<open>None\<close>), and \<open>isNaN(undefined)\<close> is true.
\<close>

fun isNaN :: "jsnum option \<Rightarrow> bool" where
  "isNaN None = True"
| "isNaN (Some NaN) = True"
| "isNaN (Some _) = False"

subsection \<open>Number to string\<close>

definition digit_char :: "nat \<Rightarrow> char" where
  "digit_char d = ''0123456789'' ! d"

fun digits_of :: "nat \<Rightarrow> string" where
  "digits_of n = (if n < 10 then [digit_char n] else digits_of (n div 10) @ [digit_char (n mod 10)])"

declare digits_of.simps [simp del]

definition int_toString :: "int \<Rightarrow> string" where
  "int_toString i = (if i < 0 then CHR ''-'' # digits_of (nat (- i)) else digits_of (nat i))"

text \<open>
  \<open>Number::toString\<close>, as template literals and \<open>.toString()\<close> apply it. NaN and the
  infinities print by name and both zeros as \<open>0\<close>. A finite value prints as the shortest
  digit string that reads back as the same binary64 value. For an integral value below
  \<open>2^53\<close> in magnitude that string is its decimal digits: below \<open>2^53\<close> every integer is
  a binary64 value of its own, so no string with fewer digits reads back as it. For every
  other finite value (a fraction, or an integer from \<open>2^53\<close> on, where neighbouring
  integers share one binary64 value and the digits are cut short) the string is the
  parameter \<open>shortest\<close>.
\<close>

definition Number_toString :: "(rat \<Rightarrow> string) \<Rightarrow> jsnum \<Rightarrow> string" where
  "Number_toString shortest x =
     (case x of
        NaN \<Rightarrow> ''NaN''
      | PosInf \<Rightarrow> ''Infinity''
      | NegInf \<Rightarrow> ''-Infinity''
      | NegZero \<Rightarrow> ''0''
      | Fin q \<Rightarrow>
          if of_int \<lfloor>q\<rfloor> = q \<and> \<bar>q\<bar> < 2 ^ 53 then int_toString \<lfloor>q\<rfloor> else shortest q)"

subsection \<open>Strings\<close>

text \<open>
  A string is a list of characters, one per code unit, over the 8-bit characters of
  \<open>char\<close>. The white space of \<open>String.prototype.trim\<close>, of the regular expression class
  \<open>\s\<close> and of \<open>parseFloat\<close> is the same set (WhiteSpace and LineTerminator); its members
  among these characters are TAB, LF, VT, FF, CR, SP and NBSP.
\<close>

definition is_ws :: "char \<Rightarrow> bool" where
  "is_ws c = (c \<in> set [CHR 0x09, CHR 0x0A, CHR 0x0B, CHR 0x0C, CHR 0x0D, CHR 0x20, CHR 0xA0])"

definition is_digit :: "char \<Rightarrow> bool" where
  "is_digit c = (c \<in> set ''0123456789'')"

definition trimStart :: "string \<Rightarrow> string" where
  "trimStart s = dropWhile is_ws s"

definition trim :: "string \<Rightarrow> string" where
  "trim s = rev (dropWhile is_ws (rev (dropWhile is_ws s)))"

text \<open>
  \<open>String.prototype.split\<close> with a one-character separator: the pieces between the
  separators, in order; a string without the separator is its own single piece.
\<close>

fun split :: "char \<Rightarrow> string \<Rightarrow> string list" where
  "split sep [] = [[]]"
| "split sep (c # cs) =
     (if c = sep then [] # split sep cs
      else (case split sep cs of [] \<Rightarrow> [[c]] | p # ps \<Rightarrow> (c # p) # ps))"

text \<open>Reading an array element: \<open>undefined\<close> (\<open>None\<close>) beyond the end.\<close>

definition element :: "'a list \<Rightarrow> nat \<Rightarrow> 'a option" where
  "element xs i = (if i < length xs then Some (xs ! i) else None)"

subsection \<open>\<open>parseFloat\<close>\<close>

text \<open>
  \<open>parseFloat\<close> drops leading white space and reads the longest prefix of the rest that
  is a \<open>StrDecimalLiteral\<close>: an optional sign, then \<open>Infinity\<close>, or digits with an optional
  fraction, or a dot with digits, each with an optional exponent part. Whatever follows
  the prefix is ignored; with no such prefix the result is NaN. The result is the Number
  value for the decimal value of the prefix, that is that value rounded to binary64
  (\<open>round64\<close>, the correctly rounded value, which is what the engines compute also for
  numerals of more than 20 digits), negated after a minus sign.
\<close>

definition digit_val :: "char \<Rightarrow> nat" where
  "digit_val c = length (takeWhile (\<lambda>d. d \<noteq> c) ''0123456789'')"

definition digits_val :: "string \<Rightarrow> nat" where
  "digits_val ds = foldl (\<lambda>a c. 10 * a + digit_val c) 0 ds"

definition pow10 :: "int \<Rightarrow> rat" where
  "pow10 e = (if 0 \<le> e then 10 ^ nat e else 1 / 10 ^ nat (- e))"

text \<open>
  The exponent of an \<open>ExponentPart\<close> at the head of the string (\<open>e\<close> or \<open>E\<close>, an optional
  sign, at least one digit); 0 when the string does not start with one.
\<close>

definition exponent_part :: "string \<Rightarrow> int" where
  "exponent_part s =
     (case s of
        [] \<Rightarrow> 0
      | e # r \<Rightarrow>
          if e = CHR ''e'' \<or> e = CHR ''E'' then
            (case r of
               [] \<Rightarrow> 0
             | g # r' \<Rightarrow>
                 if g = CHR ''+'' \<or> g = CHR ''-'' then
                   (if takeWhile is_digit r' = [] then 0
                    else if g = CHR ''-'' then - int (digits_val (takeWhile is_digit r'))
                    else int (digits_val (takeWhile is_digit r')))
                 else if takeWhile is_digit r = [] then 0
                 else int (digits_val (takeWhile is_digit r)))
          else 0)"

definition unsigned_literal :: "string \<Rightarrow> jsnum" where
  "unsigned_literal s =
     (if take 8 s = ''Infinity'' then PosInf
      else
        (let ip = takeWhile is_digit s; r = dropWhile is_digit s in
         case r of
           [] \<Rightarrow> if ip = [] then NaN else round64 (of_nat (digits_val ip))
         | c # r' \<Rightarrow>
             if c = CHR ''.'' then
               (let fp = takeWhile is_digit r'; r'' = dropWhile is_digit r' in
                if ip = [] \<and> fp = [] then NaN
                else round64 ((of_nat (digits_val ip) + of_nat (digits_val fp) / 10 ^ length fp)
                              * pow10 (exponent_part r'')))
             else if ip = [] then NaN
             else round64 (of_nat (digits_val ip) * pow10 (exponent_part r))))"

definition parseFloat :: "string \<Rightarrow> jsnum" where
  "parseFloat s =
     (case trimStart s of
        [] \<Rightarrow> NaN
      | c # r \<Rightarrow>
          if c = CHR ''-'' then js_neg (unsigned_literal r)
          else if c = CHR ''+'' then unsigned_literal r
          else unsigned_literal (c # r))"

subsection \<open>Regular expressions\<close>

text \<open>
  The regular expressions of the source use only concatenation, \<open>?\<close>, \<open>*\<close>, \<open>+\<close>,
  single characters and character classes, anchored at both ends. \<open>matches\<close> decides
  whether the whole string is in the language, by derivatives; that is when
  \<open>String.prototype.match\<close> returns a match for an expression between \<open>^\<close> and \<open>$\<close>.
\<close>

datatype rexp =
    Zero
  | One
  | Atom "char \<Rightarrow> bool"
  | Alt rexp rexp
  | Seq rexp rexp
  | Star rexp

definition Chr :: "char \<Rightarrow> rexp" where
  "Chr c = Atom (\<lambda>d. d = c)"

definition Opt :: "rexp \<Rightarrow> rexp" where
  "Opt r = Alt One r"

definition Plus :: "rexp \<Rightarrow> rexp" where
  "Plus r = Seq r (Star r)"

fun nullable :: "rexp \<Rightarrow> bool" where
  "nullable Zero = False"
| "nullable One = True"
| "nullable (Atom p) = False"
| "nullable (Alt r s) = (nullable r \<or> nullable s)"
| "nullable (Seq r s) = (nullable r \<and> nullable s)"
| "nullable (Star r) = True"

fun deriv :: "char \<Rightarrow> rexp \<Rightarrow> rexp" where
  "deriv c Zero = Zero"
| "deriv c One = Zero"
| "deriv c (Atom p) = (if p c then One else Zero)"
| "deriv c (Alt r s) = Alt (deriv c r) (deriv c s)"
| "deriv c (Seq r s) =
     (if nullable r then Alt (Seq (deriv c r) s) (deriv c s) else Seq (deriv c r) s)"
| "deriv c (Star r) = Seq (deriv c r) (Star r)"

fun matches :: "rexp \<Rightarrow> string \<Rightarrow> bool" where
  "matches r [] = nullable r"
| "matches r (c # cs) = matches (deriv c r) cs"

text \<open>The language of an expression, which \<open>matches\<close> decides.\<close>

inductive_set star :: "string set \<Rightarrow> string set" for A :: "string set" where
  star_nil: "[] \<in> star A"
| star_app: "u \<in> A \<Longrightarrow> v \<in> star A \<Longrightarrow> u @ v \<in> star A"

fun lang :: "rexp \<Rightarrow> string set" where
  "lang Zero = {}"
| "lang One = {[]}"
| "lang (Atom p) = {[c] | c. p c}"
| "lang (Alt r s) = lang r \<union> lang s"
| "lang (Seq r s) = {u @ v | u v. u \<in> lang r \<and> v \<in> lang s}"
| "lang (Star r) = star (lang r)"

text \<open>Line 99: \<open>/^-?\d+\.?\d*,\s*-?\d+\.?\d*$/\<close>.\<close>

definition number_rexp :: rexp where
  "number_rexp = Seq (Opt (Chr CHR ''-'')) (Seq (Plus (Atom is_digit))
                   (Seq (Opt (Chr CHR ''.'')) (Star (Atom is_digit))))"

definition coord_rexp :: rexp where
  "coord_rexp = Seq number_rexp (Seq (Chr CHR '','') (Seq (Star (Atom is_ws)) number_rexp))"

section \<open>Data model\<close>

text \<open>The interfaces \<open>Place\<close>, \<open>SavedCoord\<close> and \<open>LocationData\<close> (lines 5 to 24).\<close>

record Place =
  display_name :: string
  place_lat :: string
  place_lon :: string

record SavedCoord =
  coord_id :: string
  coord_lat :: jsnum
  coord_lon :: jsnum
  coord_name :: "string option"
  coord_description :: "string option"

record LocationData =
  loc_name :: string
  loc_lat :: jsnum
  loc_lon :: jsnum
  loc_description :: string

text \<open>The bounding box \<open>newBbox\<close> that \<open>handleMapViewChange\<close> reads off the map.\<close>

record Bbox =
  minLon :: jsnum
  minLat :: jsnum
  maxLon :: jsnum
  maxLat :: jsnum

text \<open>
  The component's \<open>useState\<close> cells, and the messages passed to \<open>alert\<close> so far
  (\<open>alerts\<close>), which is how a notification of the user is observed.
\<close>

record App =
  coords :: string
  lat :: "jsnum option"
  lon :: "jsnum option"
  suggestions :: "Place list"
  showSuggestions :: bool
  selectedIndex :: int
  savedCoords :: "SavedCoord list"
  alerts :: "string list"

text \<open>
  Lines 33 to 41, the initial value of \<open>savedCoords\<close>: what \<open>localStorage\<close> holds under
  the key is absent (or the empty string), is not JSON, or parses to a value, which is
  taken as the collection without any check.
\<close>

datatype stored = Absent | Unparsable | Parsed "SavedCoord list"

definition initialApp :: "stored \<Rightarrow> App" where
  "initialApp saved =
     \<lparr> coords = [], lat = None, lon = None, suggestions = [], showSuggestions = False,
       selectedIndex = - 1,
       savedCoords = (case saved of Parsed cs \<Rightarrow> cs | _ \<Rightarrow> []),
       alerts = [] \<rparr>"

section \<open>The input handlers\<close>

subsection \<open>\<open>handleShow\<close>\<close>

datatype error = InvalidInput

text \<open>
  Lines 131 to 135 of \<open>handleShow\<close>, the coordinate parser: the text is split at every
  comma, every piece is trimmed and given to \<open>parseFloat\<close>, and the first two results are
  taken; the input is invalid when one of the two is NaN or missing.
\<close>

definition coordinateParser :: "string \<Rightarrow> error + jsnum \<times> jsnum" where
  "coordinateParser text =
     (let parts = map (\<lambda>v. parseFloat (trim v)) (split CHR '','' text);
          latitude = element parts 0;
          longitude = element parts 1
      in if \<not> isNaN latitude \<and> \<not> isNaN longitude
         then Inr (the latitude, the longitude)
         else Inl InvalidInput)"

definition invalid_message :: string where
  "invalid_message = ''Please enter valid coordinates: lat, lon or select a place''"

definition handleShow :: "App \<Rightarrow> App" where
  "handleShow s =
     (case coordinateParser (coords s) of
        Inr (latitude, longitude) \<Rightarrow>
          s\<lparr>lat := Some latitude, lon := Some longitude, showSuggestions := False\<rparr>
      | Inl InvalidInput \<Rightarrow> s\<lparr>alerts := alerts s @ [invalid_message]\<rparr>)"

subsection \<open>\<open>handleSelectPlace\<close> and \<open>handleNavigateToCoord\<close>\<close>

text \<open>Lines 144 to 150.\<close>

definition handleSelectPlace :: "Place \<Rightarrow> App \<Rightarrow> App" where
  "handleSelectPlace place s =
     s\<lparr>coords := display_name place,
       lat := Some (parseFloat (place_lat place)),
       lon := Some (parseFloat (place_lon place)),
       showSuggestions := False,
       suggestions := []\<rparr>"

text \<open>Lines 168 to 172; an absent or empty name is falsy.\<close>

definition handleNavigateToCoord :: "(rat \<Rightarrow> string) \<Rightarrow> SavedCoord \<Rightarrow> App \<Rightarrow> App" where
  "handleNavigateToCoord shortest coord s =
     s\<lparr>lat := Some (coord_lat coord),
       lon := Some (coord_lon coord),
       coords := (case coord_name coord of
                    Some n \<Rightarrow> if n \<noteq> [] then n
                              else Number_toString shortest (coord_lat coord) @ '', ''
                                   @ Number_toString shortest (coord_lon coord)
                  | None \<Rightarrow> Number_toString shortest (coord_lat coord) @ '', ''
                            @ Number_toString shortest (coord_lon coord))\<rparr>"

subsection \<open>\<open>searchPlaces\<close>\<close>

text \<open>
  Lines 92 to 124, up to the \<open>await\<close>: the state after the synchronous part, and the URL
  of the request when one is sent. \<open>encode\<close> is \<open>encodeURIComponent\<close>.
\<close>

definition searchPlaces :: "(string \<Rightarrow> string) \<Rightarrow> App \<Rightarrow> App \<times> string option" where
  "searchPlaces encode s =
     (if length (trim (coords s)) < 3 then (s\<lparr>suggestions := []\<rparr>, None)
      else if matches coord_rexp (coords s) then (s\<lparr>suggestions := []\<rparr>, None)
      else (s, Some (''https://nominatim.openstreetmap.org/search?format=json&q=''
                     @ encode (coords s) @ ''&limit=5'')))"

text \<open>The rest of \<open>searchPlaces\<close>, once the request has settled (lines 116 to 123).\<close>

datatype response = Failed | Data "Place list"

fun searchSettled :: "response \<Rightarrow> App \<Rightarrow> App" where
  "searchSettled (Data data) s = s\<lparr>suggestions := data, showSuggestions := True, selectedIndex := - 1\<rparr>"
| "searchSettled Failed s = s\<lparr>suggestions := []\<rparr>"

subsection \<open>What the coordinate parser is specified to accept\<close>

text \<open>
  The value of a numeral of the shape \<open>digits(.digits)?\<close>, read as decimal notation says:
  the digits before the dot, plus the digits after it scaled by their number. The
  floating-point number that a numeral \<open>-?digits(.digits)?\<close> denotes is the binary64 value
  nearest to that, negated after a minus sign. This is what the specification calls the
  parsed value of one half of \<open><number>,<number>\<close>; the parser is compared with it.
\<close>

definition unsigned_value :: "string \<Rightarrow> rat" where
  "unsigned_value u =
     (let ip = takeWhile (\<lambda>c. c \<noteq> CHR ''.'') u;
          fp = drop 1 (dropWhile (\<lambda>c. c \<noteq> CHR ''.'') u)
      in of_nat (digits_val ip) + of_nat (digits_val fp) / 10 ^ length fp)"

definition numeral_number :: "string \<Rightarrow> jsnum" where
  "numeral_number n =
     (case n of
        [] \<Rightarrow> NaN
      | c # u \<Rightarrow> if c = CHR ''-'' then js_neg (round64 (unsigned_value u))
                else round64 (unsigned_value n))"



section \<open>The saved-point store\<close>

subsection \<open>\<open>loadLocations\<close>: the bundled dataset\<close>

text \<open>
  Lines 63 to 69: every record of the dataset becomes a \<open>SavedCoord\<close>; the record's
  \<open>lon\<close> is stored as \<open>lat\<close> and its \<open>lat\<close> as \<open>lon\<close>, and the id is the template
  \<open>location-${location.lon}-${location.lat}\<close>.
\<close>

definition newCoords :: "(rat \<Rightarrow> string) \<Rightarrow> LocationData list \<Rightarrow> SavedCoord list" where
  "newCoords shortest locations =
     map (\<lambda>location.
        \<lparr> coord_id = ''location-'' @ Number_toString shortest (loc_lon location) @ ''-''
                       @ Number_toString shortest (loc_lat location),
          coord_lat = loc_lon location,
          coord_lon = loc_lat location,
          coord_name = Some (loc_name location),
          coord_description = Some (loc_description location) \<rparr>) locations"

text \<open>
  Lines 72 to 77, the updater given to \<open>setSavedCoords\<close>: the ids of \<open>prev\<close> are
  collected in a set, the new points whose id is in that set are filtered out, and the
  rest is appended.
\<close>

definition mergeCoords :: "SavedCoord list \<Rightarrow> SavedCoord list \<Rightarrow> SavedCoord list" where
  "mergeCoords prev new =
     (let existingIds = set (map coord_id prev);
          toAdd = filter (\<lambda>coord. coord_id coord \<notin> existingIds) new
      in prev @ toAdd)"

text \<open>
  The response of the fetch of \<open>/data/locations.json\<close>: the request fails, the response is
  not \<open>ok\<close>, or it carries the dataset. In the first two cases \<open>loadLocations\<close> logs and
  returns (lines 54 to 57 and 78 to 80).
\<close>

datatype fetched = FetchError | NotOk | Locations "LocationData list"

fun loadLocations :: "(rat \<Rightarrow> string) \<Rightarrow> fetched \<Rightarrow> App \<Rightarrow> App" where
  "loadLocations shortest (Locations locations) s =
     s\<lparr>savedCoords := mergeCoords (savedCoords s) (newCoords shortest locations)\<rparr>"
| "loadLocations shortest _ s = s"

subsection \<open>\<open>handleSaveCoord\<close> and \<open>handleDeleteCoord\<close>\<close>

text \<open>
  Lines 152 to 162. \<open>now\<close> is the value of \<open>Date.now()\<close>, an integral number of
  milliseconds; the name is \<open>coords\<close> unless that is the empty string.
\<close>

definition handleSaveCoord :: "(rat \<Rightarrow> string) \<Rightarrow> int \<Rightarrow> App \<Rightarrow> App" where
  "handleSaveCoord shortest now s =
     (case (lat s, lon s) of
        (Some la, Some lo) \<Rightarrow>
          (let newCoord =
             \<lparr> coord_id = Number_toString shortest (Fin (of_int now)),
               coord_lat = la,
               coord_lon = lo,
               coord_name = Some (if coords s \<noteq> [] then coords s
                                  else Number_toString shortest la @ '', '' @ Number_toString shortest lo),
               coord_description = None \<rparr>
           in s\<lparr>savedCoords := savedCoords s @ [newCoord]\<rparr>)
      | _ \<Rightarrow> s)"

text \<open>Lines 164 to 166.\<close>

definition handleDeleteCoord :: "string \<Rightarrow> App \<Rightarrow> App" where
  "handleDeleteCoord i s = s\<lparr>savedCoords := filter (\<lambda>coord. coord_id coord \<noteq> i) (savedCoords s)\<rparr>"

section \<open>The viewport synchronizer\<close>

text \<open>Lines 194 to 200 of \<open>handleMapViewChange\<close>: the saved points inside the bounds.\<close>

definition visibleCoords :: "Bbox \<Rightarrow> SavedCoord list \<Rightarrow> SavedCoord list" where
  "visibleCoords newBbox saved =
     filter (\<lambda>coord.
        js_ge (coord_lat coord) (minLat newBbox) \<and>
        js_le (coord_lat coord) (maxLat newBbox) \<and>
        js_ge (coord_lon coord) (minLon newBbox) \<and>
        js_le (coord_lon coord) (maxLon newBbox)) saved"

text \<open>
  Lines 175 to 225, \<open>handleMapViewChange\<close>, on the markers it keeps in \<open>markersRef\<close> (each
  marker stands for the saved point it shows). With no map it returns at once; otherwise
  the old markers are dropped and one marker is made for every visible point. The bounds
  are the map's, read through \<open>getBounds\<close>.
\<close>

record Surface =
  surface_id :: nat
  center :: "jsnum \<times> jsnum"
  zoom :: nat
  listeners :: "string list"

record Refs =
  mapRef :: "Surface option"
  markersRef :: "SavedCoord list"
  currentLocationMarkerRef :: "(jsnum \<times> jsnum) option"
  constructed :: nat
  removed :: "nat list"
  crashed :: bool

definition handleMapViewChange :: "(Surface \<Rightarrow> Bbox) \<Rightarrow> SavedCoord list \<Rightarrow> Refs \<Rightarrow> Refs" where
  "handleMapViewChange getBounds saved r =
     (case mapRef r of
        None \<Rightarrow> r
      | Some m \<Rightarrow> r\<lparr>markersRef := visibleCoords (getBounds m) saved\<rparr>)"

section \<open>The render surface\<close>

text \<open>
  The map is an object made by \<open>L.map\<close>; \<open>constructed\<close> counts the maps made so far and
  numbers them, which is their identity, and \<open>removed\<close> lists the maps on which
  \<open>remove()\<close> was called.

  Lines 229 to 251, the body of the initialization effect. The container \<open>div\<close> is
  rendered exactly when \<open>lat\<close> and \<open>lon\<close> are both set (line 442), so
  \<open>mapContainerRef.current\<close> is set exactly then. The call of \<open>handleMapViewChange\<close>
  that line 250 delays by a timer is left out; the recentring effect below makes the same
  call when the effects run.

  The map library refuses a centre that is not finite: with a NaN coordinate \<open>L.map\<close>
  throws (line 231), and with an infinite one the map is made and adding the tile layer
  throws (line 240). In both cases the effect ends before line 247 sets \<open>mapRef\<close>, and
  React unmounts a component whose effect throws: \<open>crashed\<close> records that, and nothing
  runs after it. A finite centre is taken to be accepted, whatever its magnitude.
\<close>

definition initMap :: "jsnum option \<Rightarrow> jsnum option \<Rightarrow> Refs \<Rightarrow> Refs" where
  "initMap la lo r =
     (case (la, lo) of
        (Some a, Some b) \<Rightarrow>
          if mapRef r = None then
            (if a = NaN \<or> b = NaN then r\<lparr>crashed := True\<rparr>
             else if \<not> js_finite a \<or> \<not> js_finite b then
               r\<lparr>constructed := Suc (constructed r), crashed := True\<rparr>
             else
               r\<lparr>mapRef := Some \<lparr> surface_id = constructed r, center = (a, b), zoom = 13,
                                   listeners = [''moveend'', ''dragend'', ''zoomend''] \<rparr>,
                 constructed := Suc (constructed r)\<rparr>)
          else r
      | _ \<Rightarrow> r)"

text \<open>Lines 253 to 260, the function the effect returns.\<close>

definition cleanupMap :: "Refs \<Rightarrow> Refs" where
  "cleanupMap r =
     (case mapRef r of
        Some m \<Rightarrow> r\<lparr>removed := removed r @ [surface_id m], mapRef := None, markersRef := [],
                     currentLocationMarkerRef := None\<rparr>
      | None \<Rightarrow> r)"

text \<open>
  Lines 264 to 285, the effect that recentres the map: \<open>setView\<close> on the map there is,
  and the marker of the current location moved, or made when there is none.
\<close>

definition updateCenter :: "(Surface \<Rightarrow> Bbox) \<Rightarrow> SavedCoord list \<Rightarrow> jsnum option \<Rightarrow> jsnum option \<Rightarrow> Refs \<Rightarrow> Refs" where
  "updateCenter getBounds saved la lo r =
     (case (mapRef r, la, lo) of
        (Some m, Some a, Some b) \<Rightarrow>
          handleMapViewChange getBounds saved
            (r\<lparr>mapRef := Some (m\<lparr>center := (a, b)\<rparr>), currentLocationMarkerRef := Some (a, b)\<rparr>)
      | _ \<Rightarrow> r)"

text \<open>
  Both effects have the dependencies \<open>[lat, lon, handleMapViewChange]\<close> (lines 261 and
  285). \<open>handleMapViewChange\<close> is a \<open>useCallback\<close> over \<open>[savedCoords]\<close>: it is a new
  function whenever \<open>savedCoords\<close> is a new array, and \<open>dep_handler\<close> numbers these
  functions. After a render whose dependencies differ from those of the render before
  (compared with \<open>Object.is\<close>, which is equality of \<open>jsnum\<close>: NaN is itself and the two
  zeros differ), React runs the returned function of the earlier run of each effect and
  then the effects' bodies, in the order of the source; on unmount it runs the returned
  functions.
\<close>

record Deps =
  dep_lat :: "jsnum option"
  dep_lon :: "jsnum option"
  dep_handler :: nat

definition mount :: "(Surface \<Rightarrow> Bbox) \<Rightarrow> SavedCoord list \<Rightarrow> Deps \<Rightarrow> Refs \<Rightarrow> Refs" where
  "mount getBounds saved d r =
     updateCenter getBounds saved (dep_lat d) (dep_lon d) (initMap (dep_lat d) (dep_lon d) r)"

definition rerender :: "(Surface \<Rightarrow> Bbox) \<Rightarrow> SavedCoord list \<Rightarrow> Deps \<Rightarrow> Deps \<Rightarrow> Refs \<Rightarrow> Refs" where
  "rerender getBounds saved old new r =
     (if crashed r \<or> old = new then r
      else updateCenter getBounds saved (dep_lat new) (dep_lon new)
             (initMap (dep_lat new) (dep_lon new) (cleanupMap r)))"

definition deps :: "nat \<Rightarrow> App \<Rightarrow> Deps" where
  "deps handler s = \<lparr> dep_lat = lat s, dep_lon = lon s, dep_handler = handler \<rparr>"

definition unmount :: "Refs \<Rightarrow> Refs" where
  "unmount r = (if crashed r then r else cleanupMap r)"

text \<open>A run of renders: the dependencies of each render, one after the other.\<close>

fun renders :: "(Surface \<Rightarrow> Bbox) \<Rightarrow> SavedCoord list \<Rightarrow> Deps \<Rightarrow> Deps list \<Rightarrow> Refs \<Rightarrow> Refs" where
  "renders getBounds saved old [] r = r"
| "renders getBounds saved old (new # ds) r =
     renders getBounds saved new ds (rerender getBounds saved old new r)"

definition noRefs :: Refs where
  "noRefs = \<lparr> mapRef = None, markersRef = [], currentLocationMarkerRef = None,
              constructed = 0, removed = [], crashed = False \<rparr>"

section \<open>The component as a transition system\<close>

text \<open>
  The events that change the component's state: typing into the input (line 338), the
  handlers, and the arrival of the bundled dataset. \<open>SaveCoord\<close> carries the value that
  \<open>Date.now()\<close> returns when the handler runs.
\<close>

datatype action =
    Input string
  | Show
  | SelectPlace Place
  | SaveCoord int
  | DeleteCoord string
  | NavigateToCoord SavedCoord
  | LocationsLoaded fetched

fun step :: "(rat \<Rightarrow> string) \<Rightarrow> action \<Rightarrow> App \<Rightarrow> App" where
  "step shortest (Input text) s = s\<lparr>coords := text\<rparr>"
| "step shortest Show s = handleShow s"
| "step shortest (SelectPlace place) s = handleSelectPlace place s"
| "step shortest (SaveCoord now) s = handleSaveCoord shortest now s"
| "step shortest (DeleteCoord i) s = handleDeleteCoord i s"
| "step shortest (NavigateToCoord coord) s = handleNavigateToCoord shortest coord s"
| "step shortest (LocationsLoaded f) s = loadLocations shortest f s"

fun run :: "(rat \<Rightarrow> string) \<Rightarrow> action list \<Rightarrow> App \<Rightarrow> App" where
  "run shortest [] s = s"
| "run shortest (a # as) s = run shortest as (step shortest a s)"

section \<open>Properties\<close>

subsection \<open>Evaluation\<close>

lemmas number_eval = Number_toString_def int_toString_def digits_of.simps digit_char_def

lemma floor_rat_numeral: "\<lfloor>(numeral a :: rat) / numeral b\<rfloor> = numeral a div numeral b"
  using floor_divide_of_int_eq [of "numeral a" "numeral b", where ?'a = rat] by simp

lemmas round_eval = round64_def round64_pos_def floor_log2_def log2_up.simps log2_down.simps
  pow2_def round_half_even_def Let_def floor_rat_numeral

lemmas parse_eval = coordinateParser_def parseFloat_def trimStart_def trim_def is_ws_def
  is_digit_def unsigned_literal_def exponent_part_def pow10_def digits_val_def digit_val_def
  element_def round_eval

lemmas rexp_eval = coord_rexp_def number_rexp_def Opt_def Plus_def Chr_def is_digit_def is_ws_def

subsection \<open>The matcher decides the language\<close>

lemma nullable_lang: "nullable r \<longleftrightarrow> [] \<in> lang r"
  by (induction r) (auto intro: star.star_nil)

lemma star_cons_iff:
  "c # s \<in> star A \<longleftrightarrow> (\<exists>u v. s = u @ v \<and> c # u \<in> A \<and> v \<in> star A)"
proof
  have "x \<in> star A \<Longrightarrow> x = c # s \<Longrightarrow> \<exists>u v. s = u @ v \<and> c # u \<in> A \<and> v \<in> star A" for x
  proof (induction arbitrary: s rule: star.induct)
    case star_nil
    then show ?case by simp
  next
    case (star_app u v)
    show ?case
    proof (cases u)
      case Nil
      with star_app show ?thesis by simp
    next
      case (Cons d u')
      with star_app.prems have "d = c" and "s = u' @ v" by simp_all
      with Cons star_app.hyps show ?thesis by blast
    qed
  qed
  then show "c # s \<in> star A \<Longrightarrow> \<exists>u v. s = u @ v \<and> c # u \<in> A \<and> v \<in> star A" by blast
next
  assume "\<exists>u v. s = u @ v \<and> c # u \<in> A \<and> v \<in> star A"
  then obtain u v where "s = u @ v" "c # u \<in> A" "v \<in> star A" by blast
  then show "c # s \<in> star A" using star.star_app [of "c # u" A v] by simp
qed

lemma deriv_lang: "s \<in> lang (deriv c r) \<longleftrightarrow> c # s \<in> lang r"
proof (induction r arbitrary: s)
  case (Seq r1 r2)
  show ?case
    by (auto simp: Seq nullable_lang Cons_eq_append_conv)
next
  case (Star r)
  show ?case by (auto simp: Star star_cons_iff)
qed auto

lemma matches_lang: "matches r s \<longleftrightarrow> s \<in> lang r"
  by (induction s arbitrary: r) (simp_all add: nullable_lang deriv_lang)

lemma star_atoms: "s \<in> star {[c] | c. P c} \<Longrightarrow> c \<in> set s \<Longrightarrow> P c"
  by (induction rule: star.induct) auto

lemma lang_SeqE:
  assumes "x \<in> lang (Seq r s)"
  obtains u v where "x = u @ v" and "u \<in> lang r" and "v \<in> lang s"
  using assms by auto

lemma lang_Opt_Chr: "x \<in> lang (Opt (Chr c)) \<Longrightarrow> x = [] \<or> x = [c]"
  by (auto simp: Opt_def Chr_def)

lemma lang_Plus_Atom:
  "x \<in> lang (Plus (Atom P)) \<Longrightarrow> x \<noteq> [] \<and> (\<forall>c \<in> set x. P c)"
  by (auto simp: Plus_def dest: star_atoms)

lemma lang_Star_Atom: "x \<in> lang (Star (Atom P)) \<Longrightarrow> \<forall>c \<in> set x. P c"
  by (auto dest: star_atoms)

lemma number_shape:
  assumes "n \<in> lang number_rexp"
  obtains sg ds dot fs where "n = sg @ ds @ dot @ fs" and "sg = [] \<or> sg = ''-''"
    and "ds \<noteq> []" and "\<forall>c \<in> set ds. is_digit c" and "dot = [] \<or> dot = ''.''"
    and "\<forall>c \<in> set fs. is_digit c"
proof -
  from assms obtain sg r1 where 1: "n = sg @ r1" "sg \<in> lang (Opt (Chr CHR ''-''))"
    "r1 \<in> lang (Seq (Plus (Atom is_digit)) (Seq (Opt (Chr CHR ''.'')) (Star (Atom is_digit))))"
    unfolding number_rexp_def by (erule lang_SeqE)
  from 1(3) obtain ds r2 where 2: "r1 = ds @ r2" "ds \<in> lang (Plus (Atom is_digit))"
    "r2 \<in> lang (Seq (Opt (Chr CHR ''.'')) (Star (Atom is_digit)))"
    by (erule lang_SeqE)
  from 2(3) obtain dot fs where 3: "r2 = dot @ fs" "dot \<in> lang (Opt (Chr CHR ''.''))"
    "fs \<in> lang (Star (Atom is_digit))"
    by (erule lang_SeqE)
  show thesis
  proof (rule that [of sg ds dot fs])
    show "n = sg @ ds @ dot @ fs" using 1(1) 2(1) 3(1) by simp
    show "sg = [] \<or> sg = ''-''" using lang_Opt_Chr [OF 1(2)] .
    show "ds \<noteq> []" and "\<forall>c\<in>set ds. is_digit c" using lang_Plus_Atom [OF 2(2)] by simp_all
    show "dot = [] \<or> dot = ''.''" using lang_Opt_Chr [OF 3(2)] .
    show "\<forall>c\<in>set fs. is_digit c" using lang_Star_Atom [OF 3(3)] .
  qed
qed

lemma coord_shape:
  assumes "s \<in> lang coord_rexp"
  obtains n1 w n2 where "s = n1 @ CHR '','' # w @ n2" and "n1 \<in> lang number_rexp"
    and "\<forall>c \<in> set w. is_ws c" and "n2 \<in> lang number_rexp"
proof -
  from assms obtain n1 r1 where 1: "s = n1 @ r1" "n1 \<in> lang number_rexp"
    "r1 \<in> lang (Seq (Chr CHR '','') (Seq (Star (Atom is_ws)) number_rexp))"
    unfolding coord_rexp_def by (erule lang_SeqE)
  from 1(3) obtain k r2 where 2: "r1 = k @ r2" "k \<in> lang (Chr CHR '','')"
    "r2 \<in> lang (Seq (Star (Atom is_ws)) number_rexp)"
    by (erule lang_SeqE)
  from 2(3) obtain w n2 where 3: "r2 = w @ n2" "w \<in> lang (Star (Atom is_ws))"
    "n2 \<in> lang number_rexp"
    by (erule lang_SeqE)
  have k: "k = '',''" using 2(2) by (simp add: Chr_def)
  show thesis
  proof (rule that [of n1 w n2])
    show "s = n1 @ CHR '','' # w @ n2" using 1(1) 2(1) 3(1) k by simp
    show "\<forall>c\<in>set w. is_ws c" using lang_Star_Atom [OF 3(2)] .
  qed (use 1(2) 3(3) in simp_all)
qed

subsection \<open>\<open>parseFloat\<close> on numerals\<close>

lemma round64_pos_not_NaN: "round64_pos q \<noteq> NaN"
  by (simp add: round64_pos_def Let_def)

lemma js_neg_NaN: "js_neg x = NaN \<longleftrightarrow> x = NaN"
  by (cases x) simp_all

lemma round64_not_NaN: "round64 q \<noteq> NaN"
  by (simp add: round64_def round64_pos_not_NaN js_neg_NaN)

lemma isNaN_Some: "isNaN (Some x) = (x = NaN)"
  by (cases x) simp_all

lemma numeral_number_not_NaN: "n \<noteq> [] \<Longrightarrow> numeral_number n \<noteq> NaN"
  by (cases n) (simp_all add: numeral_number_def round64_not_NaN js_neg_NaN)

lemma digit_chars:
  "is_digit c \<Longrightarrow> \<not> is_ws c \<and> c \<noteq> CHR '','' \<and> c \<noteq> CHR ''.'' \<and> c \<noteq> CHR ''-'' \<and> c \<noteq> CHR ''+''
     \<and> c \<noteq> CHR ''I''"
  by (auto simp: is_digit_def is_ws_def)

lemma while_all:
  "\<forall>c \<in> set xs. P c \<Longrightarrow> takeWhile P (xs @ ys) = xs @ takeWhile P ys"
  "\<forall>c \<in> set xs. P c \<Longrightarrow> dropWhile P (xs @ ys) = dropWhile P ys"
  "\<forall>c \<in> set xs. P c \<Longrightarrow> takeWhile P xs = xs"
  "\<forall>c \<in> set xs. P c \<Longrightarrow> dropWhile P xs = []"
  by (induction xs) auto

lemma unsigned_literal_digits:
  assumes ds: "ds \<noteq> []" "\<forall>c \<in> set ds. is_digit c" and fs: "\<forall>c \<in> set fs. is_digit c"
    and dot: "dot = [] \<or> dot = ''.''"
  shows "unsigned_literal (ds @ dot @ fs) = round64 (unsigned_value (ds @ dot @ fs))"
proof -
  from ds obtain d ds' where d: "ds = d # ds'" "is_digit d" by (cases ds) auto
  have inf: "take 8 (ds @ dot @ fs) \<noteq> ''Infinity''"
    using d digit_chars [of d] by auto
  have nodot: "\<forall>c \<in> set ds. c \<noteq> CHR ''.''" "\<forall>c \<in> set fs. c \<noteq> CHR ''.''"
    using ds fs digit_chars by blast+
  from dot show ?thesis
  proof
    assume e: "dot = []"
    have all: "\<forall>c \<in> set (ds @ fs). is_digit c" "\<forall>c \<in> set (ds @ fs). c \<noteq> CHR ''.''"
      using ds fs nodot by auto
    have "unsigned_literal (ds @ fs) = round64 (of_nat (digits_val (ds @ fs)))"
      using inf ds(1) unfolding unsigned_literal_def e
      by (simp add: while_all(3,4) [OF all(1)] Let_def)
    moreover have "unsigned_value (ds @ fs) = of_nat (digits_val (ds @ fs))"
      unfolding unsigned_value_def
      by (simp add: while_all(3,4) [OF all(2)] Let_def digits_val_def)
    ultimately show ?thesis using e by simp
  next
    assume e: "dot = ''.''"
    have "unsigned_literal (ds @ CHR ''.'' # fs)
          = round64 (of_nat (digits_val ds) + of_nat (digits_val fs) / 10 ^ length fs)"
      using inf ds(1) unfolding unsigned_literal_def e
      by (simp add: while_all(1,2) [OF ds(2)] while_all(3,4) [OF fs] Let_def digit_chars
          exponent_part_def pow10_def is_digit_def)
    moreover have "unsigned_value (ds @ CHR ''.'' # fs)
          = of_nat (digits_val ds) + of_nat (digits_val fs) / 10 ^ length fs"
      unfolding unsigned_value_def
      by (simp add: while_all(1,2) [OF nodot(1)] Let_def)
    ultimately show ?thesis using e by simp
  qed
qed

lemma number_chars:
  assumes "n \<in> lang number_rexp"
  shows "n \<noteq> []" and "\<And>c. c \<in> set n \<Longrightarrow> \<not> is_ws c \<and> c \<noteq> CHR '',''"
proof -
  from assms obtain sg ds dot fs where n: "n = sg @ ds @ dot @ fs" "sg = [] \<or> sg = ''-''"
    "ds \<noteq> []" "\<forall>c \<in> set ds. is_digit c" "dot = [] \<or> dot = ''.''" "\<forall>c \<in> set fs. is_digit c"
    by (rule number_shape)
  show "n \<noteq> []" using n by simp
  fix c assume "c \<in> set n"
  with n have "is_digit c \<or> c = CHR ''-'' \<or> c = CHR ''.''" by auto
  then show "\<not> is_ws c \<and> c \<noteq> CHR '',''"
    using digit_chars [of c] by (auto simp: is_ws_def)
qed

lemma parseFloat_number:
  assumes "n \<in> lang number_rexp"
  shows "parseFloat n = numeral_number n"
proof -
  from assms obtain sg ds dot fs where n: "n = sg @ ds @ dot @ fs" "sg = [] \<or> sg = ''-''"
    "ds \<noteq> []" "\<forall>c \<in> set ds. is_digit c" "dot = [] \<or> dot = ''.''" "\<forall>c \<in> set fs. is_digit c"
    by (rule number_shape)
  from n(3,4) obtain d ds' where d: "ds = d # ds'" "is_digit d" by (cases ds) auto
  note u = unsigned_literal_digits [OF n(3,4,6,5)]
  from n(2) show ?thesis
  proof
    assume "sg = []"
    then show ?thesis
      using n(1) d digit_chars [of d] u
      by (simp add: parseFloat_def trimStart_def numeral_number_def)
  next
    assume "sg = ''-''"
    then show ?thesis
      using n(1) u by (simp add: parseFloat_def trimStart_def numeral_number_def is_ws_def)
  qed
qed

subsection \<open>The coordinate parser\<close>

lemma split_no_sep: "sep \<notin> set b \<Longrightarrow> split sep b = [b]"
  by (induction b) auto

lemma split_at_sep: "sep \<notin> set a \<Longrightarrow> split sep (a @ sep # b) = a # split sep b"
  by (induction a) auto

lemma trim_ws_prefix:
  assumes "t \<noteq> []" and "\<And>c. c \<in> set t \<Longrightarrow> \<not> is_ws c" and "\<forall>c \<in> set w. is_ws c"
  shows "trim (w @ t) = t"
proof -
  from assms(1,2) have h: "\<not> is_ws (hd t)" and l: "\<not> is_ws (last t)" by simp_all
  have 1: "dropWhile is_ws (w @ t) = t"
    using assms(1) h by (cases t) (simp_all add: while_all(2) [OF assms(3)])
  have 2: "dropWhile is_ws (rev t) = rev t"
    using assms(1) l by (cases "rev t") (simp_all add: hd_rev [symmetric])
  show ?thesis by (simp add: trim_def 1 2)
qed

lemma ws_not_comma: "is_ws c \<Longrightarrow> c \<noteq> CHR '',''"
  by (auto simp: is_ws_def)

lemma shape_is_parsed:
  assumes "matches coord_rexp s"
  shows "coordinateParser s =
     Inr (numeral_number (takeWhile (\<lambda>c. c \<noteq> CHR '','') s),
          numeral_number (trim (drop 1 (dropWhile (\<lambda>c. c \<noteq> CHR '','') s))))"
proof -
  from assms have "s \<in> lang coord_rexp" by (simp only: matches_lang)
  then obtain n1 w n2 where s: "s = n1 @ CHR '','' # w @ n2" and n1: "n1 \<in> lang number_rexp"
    and w: "\<forall>c \<in> set w. is_ws c" and n2: "n2 \<in> lang number_rexp"
    by (rule coord_shape)
  have nw1: "\<not> is_ws c" and nc1: "c \<noteq> CHR '',''" if "c \<in> set n1" for c
    using number_chars(2) [OF n1 that] by simp_all
  have nw2: "\<not> is_ws c" and nc2: "c \<noteq> CHR '',''" if "c \<in> set n2" for c
    using number_chars(2) [OF n2 that] by simp_all
  have wc: "c \<noteq> CHR '',''" if "c \<in> set w" for c
    using w that ws_not_comma by blast
  have c1: "CHR '','' \<notin> set n1" using nc1 by blast
  have c2: "CHR '','' \<notin> set (w @ n2)" using nc2 wc by auto
  have sp: "split CHR '','' s = [n1, w @ n2]"
    unfolding s by (simp only: split_at_sep [OF c1] split_no_sep [OF c2])
  have t1: "trim n1 = n1"
    using trim_ws_prefix [OF number_chars(1) [OF n1] nw1, of "[]"] by simp
  have t2: "trim (w @ n2) = n2"
    using trim_ws_prefix [OF number_chars(1) [OF n2] nw2 w] by simp
  have a1: "\<forall>c \<in> set n1. c \<noteq> CHR '',''" using nc1 by blast
  have tk: "takeWhile (\<lambda>c. c \<noteq> CHR '','') s = n1"
    unfolding s by (simp add: while_all(1) [OF a1])
  have dr: "drop 1 (dropWhile (\<lambda>c. c \<noteq> CHR '','') s) = w @ n2"
    unfolding s by (simp add: while_all(2) [OF a1])
  have p1: "parseFloat n1 = numeral_number n1" by (rule parseFloat_number [OF n1])
  have p2: "parseFloat n2 = numeral_number n2" by (rule parseFloat_number [OF n2])
  have f1: "numeral_number n1 \<noteq> NaN" using numeral_number_not_NaN [OF number_chars(1) [OF n1]] .
  have f2: "numeral_number n2 \<noteq> NaN" using numeral_number_not_NaN [OF number_chars(1) [OF n2]] .
  have "coordinateParser s = Inr (numeral_number n1, numeral_number n2)"
    unfolding coordinateParser_def sp by (simp add: element_def t1 t2 p1 p2 f1 f2 isNaN_Some)
  then show ?thesis
    unfolding tk dr t2 .
qed







subsection \<open>The parser at the edges of binary64\<close>

text \<open>
  A numeral of the shape beyond the binary64 range is parsed to an infinity, and a negated
  zero to the negative zero.
\<close>

lemma star_atoms_intro: "\<forall>c \<in> set s. P c \<Longrightarrow> s \<in> star {[c] | c. P c}"
proof (induction s)
  case Nil
  show ?case by (rule star.star_nil)
next
  case (Cons c s)
  then have "[c] \<in> {[c] | c. P c}" and "s \<in> star {[c] | c. P c}" by auto
  then have "[c] @ s \<in> star {[c] | c. P c}" by (rule star.star_app)
  then show ?case by simp
qed

lemma digits_in_number_lang:
  assumes "is_digit d" and "\<forall>c \<in> set ds. is_digit c"
  shows "d # ds \<in> lang number_rexp"
proof -
  have 1: "[] \<in> lang (Opt (Chr CHR ''-''))" and 3: "[] \<in> lang (Opt (Chr CHR ''.''))"
    by (simp_all add: Opt_def)
  have "[d] \<in> lang (Atom is_digit)" and "ds \<in> lang (Star (Atom is_digit))"
    using assms(1) star_atoms_intro [OF assms(2)] by simp_all
  then have "[d] @ ds \<in> lang (Seq (Atom is_digit) (Star (Atom is_digit)))"
    unfolding lang.simps(5) by blast
  then have 2: "d # ds \<in> lang (Plus (Atom is_digit))" by (simp add: Plus_def)
  have 4: "[] \<in> lang (Star (Atom is_digit))" by (simp add: star.star_nil)
  have "[] @ (d # ds) @ [] @ [] \<in> lang number_rexp"
    unfolding number_rexp_def lang.simps(5) using 1 2 3 4 by blast
  then show ?thesis by simp
qed

lemma pair_in_coord_lang:
  assumes "n1 \<in> lang number_rexp" and "n2 \<in> lang number_rexp"
  shows "n1 @ CHR '','' # n2 \<in> lang coord_rexp"
proof -
  have k: "'','' \<in> lang (Chr CHR '','')" by (simp add: Chr_def)
  have w: "[] \<in> lang (Star (Atom is_ws))" by (simp add: star.star_nil)
  have "n1 @ '','' @ [] @ n2 \<in> lang coord_rexp"
    unfolding coord_rexp_def lang.simps(5) using assms k w by blast
  then show ?thesis by simp
qed

lemma digits_val_zeros: "foldl (\<lambda>a c. 10 * a + digit_val c) a (replicate n CHR ''0'') = a * 10 ^ n"
  by (induction n arbitrary: a) (simp_all add: digit_val_def)

lemma round64_overflow: "2 ^ 1024 \<le> q \<Longrightarrow> round64 q = PosInf"
proof -
  assume q: "2 ^ 1024 \<le> q"
  have "(0::rat) < 2 ^ 1024" by simp
  then have "0 < q" using q by (rule less_le_trans)
  with q show ?thesis by (simp add: round64_def round64_pos_def)
qed

lemma huge_numeral_is_infinite:
  "matches coord_rexp (CHR ''1'' # replicate 309 CHR ''0'' @ '',2'') \<and>
   coordinateParser (CHR ''1'' # replicate 309 CHR ''0'' @ '',2'') = Inr (PosInf, Fin 2)"
proof -
  let ?n = "CHR ''1'' # replicate 309 CHR ''0''"
  have n1: "?n \<in> lang number_rexp"
    by (rule digits_in_number_lang) (simp_all add: is_digit_def)
  have n2: "''2'' \<in> lang number_rexp"
    by (rule digits_in_number_lang) (simp_all add: is_digit_def)
  have m: "matches coord_rexp (?n @ '',2'')"
    using pair_in_coord_lang [OF n1 n2] by (simp only: matches_lang append.simps)
  have nc: "\<forall>c \<in> set ?n. c \<noteq> CHR '',''" by simp
  have tk: "takeWhile (\<lambda>c. c \<noteq> CHR '','') (?n @ '',2'') = ?n"
    using while_all(1) [OF nc, of "'',2''"] by simp
  have dr: "trim (drop 1 (dropWhile (\<lambda>c. c \<noteq> CHR '','') (?n @ '',2''))) = ''2''"
    using while_all(2) [OF nc, of "'',2''"] by (simp add: trim_def is_ws_def)
  have nd: "\<forall>c \<in> set ?n. c \<noteq> CHR ''.''" by simp
  have d1: "digit_val CHR ''1'' = 1" by (simp add: digit_val_def)
  have "unsigned_value ?n = 10 ^ 309"
    unfolding unsigned_value_def while_all(3,4) [OF nd]
    by (simp add: digits_val_def digits_val_zeros d1)
  then have v1: "numeral_number ?n = PosInf"
    by (simp add: numeral_number_def round64_overflow)
  have v2: "numeral_number ''2'' = Fin 2"
    by (simp add: numeral_number_def unsigned_value_def digits_val_def digit_val_def round_eval)
  have "coordinateParser (?n @ '',2'') = Inr (PosInf, Fin 2)"
    unfolding shape_is_parsed [OF m] tk dr v1 v2 ..
  with m show ?thesis by simp
qed

lemma negated_zero_is_negative_zero:
  "matches coord_rexp ''-0,0'' \<and> coordinateParser ''-0,0'' = Inr (NegZero, Fin 0)"
  by (simp add: rexp_eval parse_eval)

subsection \<open>The visible subset\<close>

lemma js_ge_le: "js_ge a b = js_le b a"
  by (cases a; cases b) auto

text \<open>
  C1: for every viewport \<open>V\<close> and every collection \<open>S\<close>, the visible subset is exactly the
  points \<open>p\<close> of \<open>S\<close> with \<open>minLat V <= lat p <= maxLat V\<close> and
  \<open>minLon V <= lon p <= maxLon V\<close>, in the order of \<open>S\<close>; these are the markers that
  \<open>handleMapViewChange\<close> leaves on a map; and the bounds are inclusive: a point that lies on
  all four bounds at once is visible.
\<close>

theorem visible_subset_exact:
  "visibleCoords V S =
     filter (\<lambda>p. js_le (minLat V) (coord_lat p) \<and> js_le (coord_lat p) (maxLat V) \<and>
                  js_le (minLon V) (coord_lon p) \<and> js_le (coord_lon p) (maxLon V)) S
   \<and> set (visibleCoords V S) =
     {p \<in> set S. js_le (minLat V) (coord_lat p) \<and> js_le (coord_lat p) (maxLat V) \<and>
                  js_le (minLon V) (coord_lon p) \<and> js_le (coord_lon p) (maxLon V)}
   \<and> set (markersRef (handleMapViewChange getBounds S (r\<lparr>mapRef := Some m\<rparr>))) =
     {p \<in> set S. js_le (minLat (getBounds m)) (coord_lat p) \<and>
                  js_le (coord_lat p) (maxLat (getBounds m)) \<and>
                  js_le (minLon (getBounds m)) (coord_lon p) \<and>
                  js_le (coord_lon p) (maxLon (getBounds m))}
   \<and> visibleCoords \<lparr>minLon = Fin x, minLat = Fin y, maxLon = Fin x, maxLat = Fin y\<rparr>
        [p\<lparr>coord_lat := Fin y, coord_lon := Fin x\<rparr>] = [p\<lparr>coord_lat := Fin y, coord_lon := Fin x\<rparr>]"
  by (auto simp: visibleCoords_def handleMapViewChange_def js_ge_le)

subsection \<open>The bundled dataset\<close>

text \<open>
  C6: the initialization merge appends, for every record of the bundled dataset whose id
  the collection does not hold yet, the saved point that has the record's \<open>lon\<close> as
  latitude and the record's \<open>lat\<close> as longitude, and whose id is one fixed function of the
  swapped pair; merged into an empty collection, the record \<open>{name: "A", lat: 10, lon: 20}\<close>
  gives the one point with latitude 20, longitude 10 and the id \<open>location-20-10\<close>.
\<close>

theorem bundled_record_swapped:
  "savedCoords (loadLocations shortest (Locations locations) s) =
     savedCoords s @
     filter (\<lambda>coord. coord_id coord \<notin> set (map coord_id (savedCoords s)))
       (map (\<lambda>l. \<lparr> coord_id = ''location-'' @ Number_toString shortest (loc_lon l) @ ''-''
                                @ Number_toString shortest (loc_lat l),
                    coord_lat = loc_lon l,
                    coord_lon = loc_lat l,
                    coord_name = Some (loc_name l),
                    coord_description = Some (loc_description l) \<rparr>) locations) \<and>
   map coord_lat (newCoords shortest locations) = map loc_lon locations \<and>
   map coord_lon (newCoords shortest locations) = map loc_lat locations \<and>
   map coord_id (newCoords shortest locations) =
     map (\<lambda>l. ''location-'' @ Number_toString shortest (loc_lon l) @ ''-''
               @ Number_toString shortest (loc_lat l)) locations \<and>
   savedCoords (loadLocations shortest
       (Locations [\<lparr>loc_name = ''A'', loc_lat = Fin 10, loc_lon = Fin 20, loc_description = d\<rparr>])
       (s\<lparr>savedCoords := []\<rparr>)) =
     [\<lparr>coord_id = ''location-20-10'', coord_lat = Fin 20, coord_lon = Fin 10,
       coord_name = Some ''A'', coord_description = Some d\<rparr>]"
  by (simp add: newCoords_def mergeCoords_def number_eval comp_def)

lemma merge_nothing_new:
  "coord_id ` set new \<subseteq> coord_id ` set prev \<Longrightarrow> mergeCoords prev new = prev"
  by (auto simp: mergeCoords_def filter_empty_conv)

lemma ids_after_merge: "coord_id ` set new \<subseteq> coord_id ` set (mergeCoords prev new)"
  by (auto simp: mergeCoords_def)

lemma merge_twice: "mergeCoords (mergeCoords prev new) new = mergeCoords prev new"
  by (rule merge_nothing_new) (rule ids_after_merge)

text \<open>
  C7: when the collection already holds the ids of the bundled points, merging the
  dataset adds no point: the state and the size of the collection are unchanged, because
  every bundled point is filtered out.
\<close>

theorem repeated_merge_adds_nothing:
  assumes "coord_id ` set (newCoords shortest locations) \<subseteq> coord_id ` set (savedCoords s)"
  shows "loadLocations shortest (Locations locations) s = s \<and>
         length (savedCoords (loadLocations shortest (Locations locations) s)) =
           length (savedCoords s) \<and>
         filter (\<lambda>coord. coord_id coord \<notin> set (map coord_id (savedCoords s)))
           (newCoords shortest locations) = []"
  using assms by (auto simp: merge_nothing_new filter_empty_conv)

theorem repeated_merge_adds_nothing_witness:
  "coord_id ` set (newCoords (\<lambda>q. [])
       [\<lparr>loc_name = ''A'', loc_lat = Fin 10, loc_lon = Fin 20, loc_description = ''a''\<rparr>])
     \<subseteq> coord_id ` set (savedCoords (loadLocations (\<lambda>q. []) (Locations
       [\<lparr>loc_name = ''A'', loc_lat = Fin 10, loc_lon = Fin 20, loc_description = ''a''\<rparr>])
       (initialApp Absent)))
   \<and> loadLocations (\<lambda>q. []) (Locations
       [\<lparr>loc_name = ''A'', loc_lat = Fin 10, loc_lon = Fin 20, loc_description = ''a''\<rparr>])
       (loadLocations (\<lambda>q. []) (Locations
         [\<lparr>loc_name = ''A'', loc_lat = Fin 10, loc_lon = Fin 20, loc_description = ''a''\<rparr>])
         (initialApp Absent))
     = loadLocations (\<lambda>q. []) (Locations
       [\<lparr>loc_name = ''A'', loc_lat = Fin 10, loc_lon = Fin 20, loc_description = ''a''\<rparr>])
       (initialApp Absent)"
proof -
  have h: "coord_id ` set (newCoords (\<lambda>q. [])
       [\<lparr>loc_name = ''A'', loc_lat = Fin 10, loc_lon = Fin 20, loc_description = ''a''\<rparr>])
     \<subseteq> coord_id ` set (savedCoords (loadLocations (\<lambda>q. []) (Locations
       [\<lparr>loc_name = ''A'', loc_lat = Fin 10, loc_lon = Fin 20, loc_description = ''a''\<rparr>])
       (initialApp Absent)))"
    by (simp add: initialApp_def newCoords_def mergeCoords_def number_eval)
  show ?thesis
    using h repeated_merge_adds_nothing [OF h] by simp
qed

text \<open>
  C10: the merge keeps the collection it finds as a prefix of its result, point for point
  and in the same order, and what follows the prefix is the new points whose id the
  collection did not hold.
\<close>

theorem merge_keeps_prefix:
  "prefix prev (mergeCoords prev new) \<and>
   take (length prev) (mergeCoords prev new) = prev \<and>
   drop (length prev) (mergeCoords prev new) =
     filter (\<lambda>coord. coord_id coord \<notin> coord_id ` set prev) new \<and>
   prefix (savedCoords s) (savedCoords (loadLocations shortest f s))"
  by (cases f) (simp_all add: mergeCoords_def)

subsection \<open>Save and delete\<close>

lemma filter_other_ids:
  "i \<notin> coord_id ` set xs \<Longrightarrow> filter (\<lambda>coord. coord_id coord \<noteq> i) xs = xs"
  by (induction xs) auto

text \<open>
  C8: with a location set, saving appends one point; when the id of that point does not
  occur in the collection before the save, deleting by that id gives back the state before
  the save, the collection with its order and ids included.
\<close>

theorem save_then_delete_restores:
  assumes "lat s = Some la" and "lon s = Some lo"
    and "newId = coord_id (last (savedCoords (handleSaveCoord shortest now s)))"
    and "newId \<notin> coord_id ` set (savedCoords s)"
  shows "handleDeleteCoord newId (handleSaveCoord shortest now s) = s"
  using assms by (simp add: handleDeleteCoord_def handleSaveCoord_def Let_def filter_other_ids)

theorem save_then_delete_restores_witness:
  "lat (run (\<lambda>q. []) [Input ''1,2'', Show] (initialApp (Parsed
        [\<lparr>coord_id = ''location-20-10'', coord_lat = Fin 20, coord_lon = Fin 10,
          coord_name = Some ''A'', coord_description = Some ''a''\<rparr>]))) = Some (Fin 1)
   \<and> handleDeleteCoord ''1700000000000'' (handleSaveCoord (\<lambda>q. []) 1700000000000
       (run (\<lambda>q. []) [Input ''1,2'', Show] (initialApp (Parsed
        [\<lparr>coord_id = ''location-20-10'', coord_lat = Fin 20, coord_lon = Fin 10,
          coord_name = Some ''A'', coord_description = Some ''a''\<rparr>]))))
     = run (\<lambda>q. []) [Input ''1,2'', Show] (initialApp (Parsed
        [\<lparr>coord_id = ''location-20-10'', coord_lat = Fin 20, coord_lon = Fin 10,
          coord_name = Some ''A'', coord_description = Some ''a''\<rparr>]))"
proof -
  let ?s = "run (\<lambda>q. []) [Input ''1,2'', Show] (initialApp (Parsed
        [\<lparr>coord_id = ''location-20-10'', coord_lat = Fin 20, coord_lon = Fin 10,
          coord_name = Some ''A'', coord_description = Some ''a''\<rparr>]))"
  have s: "?s = \<lparr> coords = ''1,2'', lat = Some (Fin 1), lon = Some (Fin 2), suggestions = [],
       showSuggestions = False, selectedIndex = - 1,
       savedCoords = [\<lparr>coord_id = ''location-20-10'', coord_lat = Fin 20, coord_lon = Fin 10,
          coord_name = Some ''A'', coord_description = Some ''a''\<rparr>], alerts = [] \<rparr>"
    by (simp add: initialApp_def handleShow_def parse_eval)
  have h1: "lat ?s = Some (Fin 1)" and h2: "lon ?s = Some (Fin 2)"
    unfolding s by simp_all
  have h3: "''1700000000000'' = coord_id (last (savedCoords (handleSaveCoord (\<lambda>q. []) 1700000000000 ?s)))"
    unfolding s by (simp add: handleSaveCoord_def number_eval)
  have h4: "''1700000000000'' \<notin> coord_id ` set (savedCoords ?s)"
    unfolding s by simp
  show ?thesis
    using h1 save_then_delete_restores [OF h1 h2 h3 h4] by simp
qed

subsection \<open>Invalid input\<close>

text \<open>
  C9: when the coordinate parser signals \<open>InvalidInput\<close>, \<open>handleShow\<close> alerts the user
  and changes nothing else: the location and every other cell of the state are as
  before.
\<close>

theorem invalid_input_only_alerts:
  assumes "coordinateParser (coords s) = Inl InvalidInput"
  shows "handleShow s = s\<lparr>alerts := alerts s @ [invalid_message]\<rparr> \<and>
         lat (handleShow s) = lat s \<and> lon (handleShow s) = lon s \<and>
         alerts (handleShow s) = alerts s @ [invalid_message]"
  using assms by (simp add: handleShow_def)

theorem invalid_input_only_alerts_witness:
  "coordinateParser
     (coords (run (\<lambda>q. []) [Input ''1,2'', Show, Input ''Tel Aviv''] (initialApp Absent)))
     = Inl InvalidInput \<and>
   handleShow (run (\<lambda>q. []) [Input ''1,2'', Show, Input ''Tel Aviv''] (initialApp Absent)) =
     \<lparr> coords = ''Tel Aviv'', lat = Some (Fin 1), lon = Some (Fin 2), suggestions = [],
       showSuggestions = False, selectedIndex = - 1, savedCoords = [],
       alerts = [''Please enter valid coordinates: lat, lon or select a place''] \<rparr>"
proof -
  let ?s = "run (\<lambda>q. []) [Input ''1,2'', Show, Input ''Tel Aviv''] (initialApp Absent)"
  have s: "?s = \<lparr> coords = ''Tel Aviv'', lat = Some (Fin 1), lon = Some (Fin 2), suggestions = [],
       showSuggestions = False, selectedIndex = - 1, savedCoords = [], alerts = [] \<rparr>"
    by (simp add: initialApp_def handleShow_def parse_eval)
  have h: "coordinateParser (coords ?s) = Inl InvalidInput"
    unfolding s by (simp add: parse_eval)
  show ?thesis
    using h invalid_input_only_alerts [OF h] unfolding s by (simp add: invalid_message_def)
qed

subsection \<open>Place search\<close>

text \<open>
  C5: for a query whose trimmed length is below 3, or which matches the coordinate
  expression of line 99, \<open>searchPlaces\<close> clears the suggestions and sends no request.
\<close>

theorem short_or_coordinate_query_clears:
  assumes "length (trim (coords s)) < 3 \<or> matches coord_rexp (coords s)"
  shows "searchPlaces encode s = (s\<lparr>suggestions := []\<rparr>, None)"
  using assms by (auto simp: searchPlaces_def)

theorem short_or_coordinate_query_clears_witness:
  "length (trim (coords ((initialApp Absent)\<lparr>coords := '' ab ''\<rparr>))) < 3 \<and>
   searchPlaces (\<lambda>q. q) ((initialApp Absent)\<lparr>coords := '' ab ''\<rparr>) =
     ((initialApp Absent)\<lparr>coords := '' ab '', suggestions := []\<rparr>, None) \<and>
   matches coord_rexp (coords ((initialApp Absent)\<lparr>coords := ''40.7128, -74.0060''\<rparr>)) \<and>
   searchPlaces (\<lambda>q. q) ((initialApp Absent)\<lparr>coords := ''40.7128, -74.0060''\<rparr>) =
     ((initialApp Absent)\<lparr>coords := ''40.7128, -74.0060'', suggestions := []\<rparr>, None)"
proof -
  have h1: "length (trim (coords ((initialApp Absent)\<lparr>coords := '' ab ''\<rparr>))) < 3"
    by (simp add: trim_def is_ws_def)
  have h2: "matches coord_rexp (coords ((initialApp Absent)\<lparr>coords := ''40.7128, -74.0060''\<rparr>))"
    by (simp add: rexp_eval)
  show ?thesis
    using h1 h2
      short_or_coordinate_query_clears [of "(initialApp Absent)\<lparr>coords := '' ab ''\<rparr>" "\<lambda>q. q"]
      short_or_coordinate_query_clears [of "(initialApp Absent)\<lparr>coords := ''40.7128, -74.0060''\<rparr>" "\<lambda>q. q"]
    by simp
qed

lemma three_letters_are_searched:
  "snd (searchPlaces encode (s\<lparr>coords := ''abc''\<rparr>)) =
     Some (''https://nominatim.openstreetmap.org/search?format=json&q='' @ encode ''abc'' @ ''&limit=5'')"
  by (simp add: searchPlaces_def trim_def is_ws_def rexp_eval)

subsection \<open>The life of the render surface\<close>

lemma focus_change_replaces_surface:
  assumes "mapRef r = Some m" and "\<not> crashed r" and "old \<noteq> new"
    and "dep_lat new = Some a" and "dep_lon new = Some b" and "js_finite a" and "js_finite b"
  shows "map_option surface_id (mapRef (rerender getBounds saved old new r)) = Some (constructed r) \<and>
         removed (rerender getBounds saved old new r) = removed r @ [surface_id m]"
  using assms
  by (cases a; cases b)
     (simp_all add: rerender_def initMap_def cleanupMap_def updateCenter_def
        handleMapViewChange_def)

lemma infinite_centre_unmounts:
  "mapRef (renders getBounds [] (deps 0 (initialApp Absent))
       [deps 0 (run shortest [Input ''Infinity,1'', Show] (initialApp Absent))]
       (mount getBounds [] (deps 0 (initialApp Absent)) noRefs)) = None \<and>
   crashed (renders getBounds [] (deps 0 (initialApp Absent))
       [deps 0 (run shortest [Input ''Infinity,1'', Show] (initialApp Absent))]
       (mount getBounds [] (deps 0 (initialApp Absent)) noRefs))"
  by (simp add: initialApp_def handleShow_def parse_eval deps_def mount_def rerender_def
      initMap_def cleanupMap_def updateCenter_def handleMapViewChange_def noRefs_def)

text \<open>
  C3 asks that the surface made at the first assignment of the location stays until the
  component is unmounted. The code does otherwise. Mounted with no location there is no
  map; the first \<open>Show\<close> makes map 0; the next \<open>Show\<close> with another location runs the
  returned function of the effect, which removes map 0 and leaves no map, and the effect's
  body then makes map 1.
\<close>

theorem surface_replaced_on_focus_change:
  "map_option surface_id (mapRef (mount getBounds [] (deps 0 (initialApp Absent)) noRefs)) = None \<and>
   map_option surface_id (mapRef (renders getBounds [] (deps 0 (initialApp Absent))
       [deps 0 (run shortest [Input ''1,2'', Show] (initialApp Absent))]
       (mount getBounds [] (deps 0 (initialApp Absent)) noRefs))) = Some 0 \<and>
   mapRef (cleanupMap (renders getBounds [] (deps 0 (initialApp Absent))
       [deps 0 (run shortest [Input ''1,2'', Show] (initialApp Absent))]
       (mount getBounds [] (deps 0 (initialApp Absent)) noRefs))) = None \<and>
   map_option surface_id (mapRef (renders getBounds [] (deps 0 (initialApp Absent))
       [deps 0 (run shortest [Input ''1,2'', Show] (initialApp Absent)),
        deps 0 (run shortest [Input ''1,2'', Show, Input ''3,4'', Show] (initialApp Absent))]
       (mount getBounds [] (deps 0 (initialApp Absent)) noRefs))) = Some 1 \<and>
   removed (renders getBounds [] (deps 0 (initialApp Absent))
       [deps 0 (run shortest [Input ''1,2'', Show] (initialApp Absent)),
        deps 0 (run shortest [Input ''1,2'', Show, Input ''3,4'', Show] (initialApp Absent))]
       (mount getBounds [] (deps 0 (initialApp Absent)) noRefs)) = [0]"
  by (simp add: initialApp_def handleShow_def parse_eval deps_def mount_def rerender_def
      initMap_def cleanupMap_def updateCenter_def handleMapViewChange_def noRefs_def
      visibleCoords_def)

subsection \<open>Distinct ids\<close>

lemma distinct_merge:
  "distinct (map coord_id prev) \<Longrightarrow> distinct (map coord_id new) \<Longrightarrow>
   distinct (map coord_id (mergeCoords prev new))"
  by (auto simp: mergeCoords_def distinct_map_filter image_iff)

lemma distinct_delete:
  "distinct (map coord_id xs) \<Longrightarrow>
   distinct (map coord_id (filter (\<lambda>coord. coord_id coord \<noteq> i) xs))"
  by (simp add: distinct_map_filter)

text \<open>
  C4 asks that every id occurs at most once in every reachable collection, and the code
  counts on it: the id is the key of a row (line 405) and what a delete goes by (line 165).
  The code does not keep it. Two saves at the same time stamp give two points with one
  id, and one delete then removes both; two records of the dataset with the same
  coordinates give two points with one id as well.
\<close>

theorem duplicate_ids_reachable:
  "map coord_id (savedCoords
       (run (\<lambda>q. []) [Input ''1,2'', Show, SaveCoord 1700000000000, SaveCoord 1700000000000]
          (initialApp Absent))) = [''1700000000000'', ''1700000000000'']
   \<and> \<not> distinct (map coord_id (savedCoords
       (run (\<lambda>q. []) [Input ''1,2'', Show, SaveCoord 1700000000000, SaveCoord 1700000000000]
          (initialApp Absent))))
   \<and> savedCoords
       (run (\<lambda>q. []) [Input ''1,2'', Show, SaveCoord 1700000000000, SaveCoord 1700000000000,
                      DeleteCoord ''1700000000000'']
          (initialApp Absent)) = []
   \<and> \<not> distinct (map coord_id (savedCoords
       (run (\<lambda>q. []) [LocationsLoaded (Locations
              [\<lparr>loc_name = ''A'', loc_lat = Fin 10, loc_lon = Fin 20, loc_description = ''a''\<rparr>,
               \<lparr>loc_name = ''B'', loc_lat = Fin 10, loc_lon = Fin 20, loc_description = ''b''\<rparr>])]
          (initialApp Absent))))"
  by (simp add: initialApp_def handleShow_def handleSaveCoord_def handleDeleteCoord_def
      parse_eval number_eval newCoords_def mergeCoords_def)

end
